theory Spec2Isabelle
  imports Main
begin

section \<open>JSON values and the message envelope\<close>

text \<open>
  The server in \<^verbatim>\<open>main.go\<close> reads text frames from a websocket, decodes each frame with
  \<^verbatim>\<open>json.Unmarshal\<close> and answers with frames built by \<^verbatim>\<open>json.Marshal\<close>. A frame is modelled
  by the JSON value it denotes. Object members are kept as a list, in the order in which
  they occur in the text, because the decoder of \<^verbatim>\<open>encoding/json\<close> processes them in that
  order and a later duplicate overwrites an earlier one. A number is kept as its literal.
\<close>

datatype json =
    JNull
  | JBool bool
  | JNumber string
  | JString string
  | JArray "json list"
  | JObject "(string \<times> json) list"

text \<open>
  The errors \<^verbatim>\<open>json.Unmarshal\<close> returns: the bytes are not one valid JSON text (which
  includes the empty input), or a JSON value does not fit the Go type it is stored into.
  \<open>DBError\<close> stands for any error of \<^verbatim>\<open>ConnectDB\<close> or \<^verbatim>\<open>LoadPuzzle\<close>, with its message.
\<close>

datatype error = SyntaxError | UnmarshalTypeError | DBError string

text \<open>
  \<^verbatim>\<open>type Message struct { Type string `json:"type"`; Data json.RawMessage `json:"data"` }\<close>.
  A \<^verbatim>\<open>json.RawMessage\<close> holds the undecoded text of one JSON value; it is \<^verbatim>\<open>nil\<close> (here
  \<open>None\<close>) when the envelope has no \<^verbatim>\<open>data\<close> member.
\<close>

record Message =
  Type :: string
  Data :: "json option"

text \<open>
  The decoder matches an object key against the field names of the target struct, first
  exactly and then after case folding. None of the field names used here contains a
  letter with a non-ASCII fold partner, so folding the ASCII letters decides the match.
\<close>

definition foldChar :: "char \<Rightarrow> char" where
  "foldChar c =
     (case map_of (zip ''abcdefghijklmnopqrstuvwxyz'' ''ABCDEFGHIJKLMNOPQRSTUVWXYZ'') c of
        None \<Rightarrow> c
      | Some u \<Rightarrow> u)"

definition foldName :: "string \<Rightarrow> string" where
  "foldName k = map foldChar k"

text \<open>
  Storing a JSON value into a Go \<^verbatim>\<open>string\<close> field: a JSON string is stored, \<^verbatim>\<open>null\<close> leaves
  the field as it is, every other value is a type error and leaves the field as it is.
\<close>

fun storeString :: "json \<Rightarrow> string \<Rightarrow> error + string" where
  "storeString (JString s) old = Inr s"
| "storeString JNull old = Inr old"
| "storeString (JBool b) old = Inl UnmarshalTypeError"
| "storeString (JNumber n) old = Inl UnmarshalTypeError"
| "storeString (JArray xs) old = Inl UnmarshalTypeError"
| "storeString (JObject kvs) old = Inl UnmarshalTypeError"

text \<open>The decoder goes on after a type error and reports the earliest one at the end.\<close>

definition saveError :: "error option \<Rightarrow> error \<Rightarrow> error option" where
  "saveError saved err = (case saved of None \<Rightarrow> Some err | Some e \<Rightarrow> Some e)"

fun messageObject ::
  "(string \<times> json) list \<Rightarrow> Message \<Rightarrow> error option \<Rightarrow> Message \<times> error option" where
  "messageObject [] m saved = (m, saved)"
| "messageObject ((k, v) # kvs) m saved =
     (if foldName k = ''TYPE'' then
        (case storeString v (Type m) of
           Inl err \<Rightarrow> messageObject kvs m (saveError saved err)
         | Inr s \<Rightarrow> messageObject kvs (m\<lparr>Type := s\<rparr>) saved)
      else if foldName k = ''DATA'' then messageObject kvs (m\<lparr>Data := Some v\<rparr>) saved
      else messageObject kvs m saved)"

text \<open>
  \<^verbatim>\<open>json.Unmarshal(msg, &message)\<close> on a zero \<^verbatim>\<open>Message\<close>. The argument is \<open>None\<close> when the
  frame is not a valid JSON text.
\<close>

definition unmarshalMessage :: "json option \<Rightarrow> error + Message" where
  "unmarshalMessage msg =
     (case msg of
        None \<Rightarrow> Inl SyntaxError
      | Some JNull \<Rightarrow> Inr \<lparr>Type = [], Data = None\<rparr>
      | Some (JObject kvs) \<Rightarrow>
          (case messageObject kvs \<lparr>Type = [], Data = None\<rparr> None of
             (m, None) \<Rightarrow> Inr m
           | (m, Some err) \<Rightarrow> Inl err)
      | Some (JBool b) \<Rightarrow> Inl UnmarshalTypeError
      | Some (JNumber n) \<Rightarrow> Inl UnmarshalTypeError
      | Some (JString s) \<Rightarrow> Inl UnmarshalTypeError
      | Some (JArray xs) \<Rightarrow> Inl UnmarshalTypeError)"

section \<open>Payloads\<close>

text \<open>
  The anonymous struct of the \<^verbatim>\<open>board_update\<close> case,
  \<^verbatim>\<open>struct { Cell string `json:"cell"`; Letter string `json:"letter"` }\<close>, and the one of the
  \<^verbatim>\<open>game_over\<close> case, \<^verbatim>\<open>struct { Winner string `json:"winner"` }\<close>.
\<close>

record BoardUpdate =
  Cell :: string
  Letter :: string

record GameOver =
  Winner :: string

fun boardUpdateObject ::
  "(string \<times> json) list \<Rightarrow> BoardUpdate \<Rightarrow> error option \<Rightarrow> BoardUpdate \<times> error option" where
  "boardUpdateObject [] d saved = (d, saved)"
| "boardUpdateObject ((k, v) # kvs) d saved =
     (if foldName k = ''CELL'' then
        (case storeString v (Cell d) of
           Inl err \<Rightarrow> boardUpdateObject kvs d (saveError saved err)
         | Inr s \<Rightarrow> boardUpdateObject kvs (d\<lparr>Cell := s\<rparr>) saved)
      else if foldName k = ''LETTER'' then
        (case storeString v (Letter d) of
           Inl err \<Rightarrow> boardUpdateObject kvs d (saveError saved err)
         | Inr s \<Rightarrow> boardUpdateObject kvs (d\<lparr>Letter := s\<rparr>) saved)
      else boardUpdateObject kvs d saved)"

text \<open>\<^verbatim>\<open>json.Unmarshal(message.Data, &data)\<close> in the \<^verbatim>\<open>board_update\<close> case.\<close>

definition unmarshalBoardUpdate :: "json option \<Rightarrow> error + BoardUpdate" where
  "unmarshalBoardUpdate raw =
     (case raw of
        None \<Rightarrow> Inl SyntaxError
      | Some JNull \<Rightarrow> Inr \<lparr>Cell = [], Letter = []\<rparr>
      | Some (JObject kvs) \<Rightarrow>
          (case boardUpdateObject kvs \<lparr>Cell = [], Letter = []\<rparr> None of
             (d, None) \<Rightarrow> Inr d
           | (d, Some err) \<Rightarrow> Inl err)
      | Some (JBool b) \<Rightarrow> Inl UnmarshalTypeError
      | Some (JNumber n) \<Rightarrow> Inl UnmarshalTypeError
      | Some (JString s) \<Rightarrow> Inl UnmarshalTypeError
      | Some (JArray xs) \<Rightarrow> Inl UnmarshalTypeError)"

fun gameOverObject ::
  "(string \<times> json) list \<Rightarrow> GameOver \<Rightarrow> error option \<Rightarrow> GameOver \<times> error option" where
  "gameOverObject [] d saved = (d, saved)"
| "gameOverObject ((k, v) # kvs) d saved =
     (if foldName k = ''WINNER'' then
        (case storeString v (Winner d) of
           Inl err \<Rightarrow> gameOverObject kvs d (saveError saved err)
         | Inr s \<Rightarrow> gameOverObject kvs (d\<lparr>Winner := s\<rparr>) saved)
      else gameOverObject kvs d saved)"

text \<open>\<^verbatim>\<open>json.Unmarshal(message.Data, &data)\<close> in the \<^verbatim>\<open>game_over\<close> case.\<close>

definition unmarshalGameOver :: "json option \<Rightarrow> error + GameOver" where
  "unmarshalGameOver raw =
     (case raw of
        None \<Rightarrow> Inl SyntaxError
      | Some JNull \<Rightarrow> Inr \<lparr>Winner = []\<rparr>
      | Some (JObject kvs) \<Rightarrow>
          (case gameOverObject kvs \<lparr>Winner = []\<rparr> None of
             (d, None) \<Rightarrow> Inr d
           | (d, Some err) \<Rightarrow> Inl err)
      | Some (JBool b) \<Rightarrow> Inl UnmarshalTypeError
      | Some (JNumber n) \<Rightarrow> Inl UnmarshalTypeError
      | Some (JString s) \<Rightarrow> Inl UnmarshalTypeError
      | Some (JArray xs) \<Rightarrow> Inl UnmarshalTypeError)"

section \<open>Puzzle and game state\<close>

text \<open>
  \<^verbatim>\<open>type Puzzle struct { Grid string; Clues, Answers map[string]string }\<close>, as \<^verbatim>\<open>main.go\<close>
  declares it and as \<^verbatim>\<open>dummyPuzzle\<close> fills it. The two maps are only ever built once and
  marshalled; they are kept as the list of their entries in the order \<^verbatim>\<open>json.Marshal\<close>
  writes them (sorted by key). A \<^verbatim>\<open>time.Time\<close> is kept as the RFC 3339 text
  \<^verbatim>\<open>json.Marshal\<close> writes for it.
\<close>

record Puzzle =
  Grid :: string
  Clues :: "(string \<times> string) list"
  Answers :: "(string \<times> string) list"

type_synonym Time = string

text \<open>
  \<^verbatim>\<open>type GameState struct\<close>. The two player maps are written by key, so they are maps; a Go
  map can be \<^verbatim>\<open>nil\<close> (\<open>None\<close>), and assigning to an entry of a nil map panics.
\<close>

record GameState =
  Puzzle :: Puzzle
  Player1State :: "(string \<rightharpoonup> string) option"
  Player2State :: "(string \<rightharpoonup> string) option"
  StartTime :: Time
  IsFinished :: bool

definition dummyPuzzle :: Puzzle where
  "dummyPuzzle =
     \<lparr>Grid = ''dummy grid layout'',
      Clues = [(''7-Across'', ''Example clue for 7-Across''),
               (''7-Down'', ''Example clue for 7-Down'')],
      Answers = [(''7-Across'', ''EXAMPLE''), (''7-Down'', ''EXAMPLE'')]\<rparr>"

section \<open>Sending\<close>

text \<open>
  A connection is identified by a number. What a function writes is returned as the list
  of its calls of \<^verbatim>\<open>conn.WriteMessage\<close>, each with the connection and the frame. Whether
  the transport then delivers the frame is outside the program; the callers only log a
  failed write. Log output is not modelled.
\<close>

type_synonym conn = nat

type_synonym writes = "(conn \<times> json) list"

text \<open>The values passed to \<^verbatim>\<open>sendMessage\<close> as \<^verbatim>\<open>data interface{}\<close>.\<close>

datatype data =
    BoardUpdateData BoardUpdate
  | GameOverData GameOver
  | StartData Puzzle Time

definition marshalMap :: "(string \<times> string) list \<Rightarrow> json" where
  "marshalMap kvs = JObject (map (\<lambda>(k, v). (k, JString v)) kvs)"

definition marshalPuzzle :: "Puzzle \<Rightarrow> json" where
  "marshalPuzzle p =
     JObject [(''grid'', JString (Grid p)),
              (''clues'', marshalMap (Clues p)),
              (''answers'', marshalMap (Answers p))]"

fun marshal :: "data \<Rightarrow> json" where
  "marshal (BoardUpdateData d) =
     JObject [(''cell'', JString (Cell d)), (''letter'', JString (Letter d))]"
| "marshal (GameOverData d) = JObject [(''winner'', JString (Winner d))]"
| "marshal (StartData p t) =
     JObject [(''puzzle'', marshalPuzzle p), (''start_time'', JString t)]"

text \<open>
  Lines 27 to 39 of \<^verbatim>\<open>sendMessage\<close>: the frame \<^verbatim>\<open>fullMessage\<close>, the marshalled \<^verbatim>\<open>Message\<close>
  whose \<^verbatim>\<open>Data\<close> is the marshalled \<^verbatim>\<open>data\<close>. Marshalling these values cannot fail.
\<close>

definition fullMessage :: "string \<Rightarrow> data \<Rightarrow> json" where
  "fullMessage messageType d =
     JObject [(''type'', JString messageType), (''data'', marshal d)]"

definition sendMessage :: "conn \<Rightarrow> string \<Rightarrow> data \<Rightarrow> writes" where
  "sendMessage c messageType d = [(c, fullMessage messageType d)]"

section \<open>handleMessage\<close>

text \<open>
  \<^verbatim>\<open>handleMessage\<close> has no result; it changes the game state behind the pointer and writes
  to the opponent's connection. The model returns the state the pointer refers to after
  the call (\<open>None\<close> for the nil pointer) and the writes, or \<open>Panic\<close> when the call panics.
\<close>

datatype result = Panic | Return "GameState option" writes

text \<open>The assignment \<^verbatim>\<open>m[k] = v\<close>; \<open>None\<close> is the panic on a nil map.\<close>

definition assign ::
  "(string \<rightharpoonup> string) option \<Rightarrow> string \<Rightarrow> string \<Rightarrow> (string \<rightharpoonup> string) option" where
  "assign m k v = (case m of None \<Rightarrow> None | Some f \<Rightarrow> Some (f(k \<mapsto> v)))"

text \<open>Lines 64 to 70: the update of the sender's own map. \<open>None\<close> is a panic.\<close>

definition updateBoard ::
  "GameState option \<Rightarrow> string \<Rightarrow> BoardUpdate \<Rightarrow> GameState option option" where
  "updateBoard gameState playerID d =
     (case gameState of
        None \<Rightarrow> Some None
      | Some gs \<Rightarrow>
          if playerID = ''player1'' then
            (case assign (Player1State gs) (Cell d) (Letter d) of
               None \<Rightarrow> None
             | Some f \<Rightarrow> Some (Some (gs\<lparr>Player1State := Some f\<rparr>)))
          else if playerID = ''player2'' then
            (case assign (Player2State gs) (Cell d) (Letter d) of
               None \<Rightarrow> None
             | Some f \<Rightarrow> Some (Some (gs\<lparr>Player2State := Some f\<rparr>)))
          else Some (Some gs))"

text \<open>The guarded broadcast \<^verbatim>\<open>if opponentConn != nil { sendMessage(...) }\<close>.\<close>

definition broadcast :: "conn option \<Rightarrow> string \<Rightarrow> data \<Rightarrow> writes" where
  "broadcast opponentConn messageType d =
     (case opponentConn of None \<Rightarrow> [] | Some c \<Rightarrow> sendMessage c messageType d)"

definition handleMessage ::
  "json option \<Rightarrow> GameState option \<Rightarrow> string \<Rightarrow> conn option \<Rightarrow> result" where
  "handleMessage msg gameState playerID opponentConn =
     (case unmarshalMessage msg of
        Inl err \<Rightarrow> Return gameState []
      | Inr message \<Rightarrow>
          if Type message = ''board_update'' then
            (case unmarshalBoardUpdate (Data message) of
               Inl err \<Rightarrow> Return gameState []
             | Inr d \<Rightarrow>
                 (case updateBoard gameState playerID d of
                    None \<Rightarrow> Panic
                  | Some gameState' \<Rightarrow>
                      Return gameState'
                        (broadcast opponentConn ''board_update'' (BoardUpdateData d))))
          else if Type message = ''heartbeat'' then Return gameState []
          else if Type message = ''game_over'' then
            (case unmarshalGameOver (Data message) of
               Inl err \<Rightarrow> Return gameState []
             | Inr d \<Rightarrow>
                 Return (map_option (\<lambda>gs. gs\<lparr>IsFinished := True\<rparr>) gameState)
                   (broadcast opponentConn ''game_over'' (GameOverData d)))
          else Return gameState [])"

section \<open>Matchmaking and session start\<close>

text \<open>\<^verbatim>\<open>type Player struct { ID string; Conn *websocket.Conn }\<close> and \<^verbatim>\<open>type Match struct\<close>.\<close>

record Player =
  ID :: string
  Conn :: conn

record Match =
  Player1 :: Player
  Player2 :: Player

text \<open>
  Every connection runs \<^verbatim>\<open>wsHandler\<close> in a goroutine of its own. The handlers share the
  global \<^verbatim>\<open>waitingPlayer\<close>, which they read and write only between \<^verbatim>\<open>waitingMutex.Lock()\<close>
  and \<^verbatim>\<open>waitingMutex.Unlock()\<close>, so each locked region is one atomic step of the server.
  The server state holds \<^verbatim>\<open>waitingPlayer\<close>, the matches formed so far, each with the game
  state its handler allocated, and the frames the handlers have written so far outside
  the pumps.
\<close>

record Server =
  waitingPlayer :: "Player option"
  sessions :: "(Match \<times> GameState) list"
  sent :: writes

text \<open>
  Lines 210 to 225: \<^verbatim>\<open>ConnectDB\<close> and \<^verbatim>\<open>LoadPuzzle\<close> talk to a database, so their results
  are parameters. \<^verbatim>\<open>LoadPuzzle\<close> is called only when \<^verbatim>\<open>ConnectDB\<close> succeeded.
\<close>

definition loadedPuzzle :: "error + unit \<Rightarrow> error + Puzzle \<Rightarrow> Puzzle" where
  "loadedPuzzle connectDB loadPuzzle =
     (case connectDB of
        Inl err \<Rightarrow> dummyPuzzle
      | Inr db \<Rightarrow> (case loadPuzzle of Inl err \<Rightarrow> dummyPuzzle | Inr p \<Rightarrow> p))"

text \<open>
  What a handler does, as events.
  \<^item> \<open>Connect\<close>: a connection was upgraded and its handler runs lines 170 to 253. It takes
    the lock and either becomes the waiting player or takes the waiting player as
    opponent; in the second case it loads the puzzle, allocates the game state and writes
    the two start frames. The event carries the results of \<^verbatim>\<open>ConnectDB\<close>, \<^verbatim>\<open>LoadPuzzle\<close>
    and \<^verbatim>\<open>time.Now()\<close>. What follows the locked region touches only local variables and
    the two connections of the match, so it is taken as part of the same step.
  \<^item> \<open>WaitFrame\<close>: the waiting loop of a handler read a frame (line 193).
  \<^item> \<open>WaitClosed\<close>: the read of the waiting loop failed (lines 183 to 190). The slot is
    compared by \<^verbatim>\<open>ID\<close>, the remote address of the connection.
  The result \<open>None\<close> is a server that has panicked.
\<close>

datatype event =
    Connect Player "error + unit" "error + Puzzle" Time
  | WaitFrame Player "json option"
  | WaitClosed Player

fun wsHandler :: "event \<Rightarrow> Server \<Rightarrow> Server option" where
  "wsHandler (Connect player connectDB loadPuzzle now) s =
     (case waitingPlayer s of
        None \<Rightarrow> Some (s\<lparr>waitingPlayer := Some player\<rparr>)
      | Some opponent \<Rightarrow>
          (let match = \<lparr>Player1 = opponent, Player2 = player\<rparr>;
               puzzle = loadedPuzzle connectDB loadPuzzle;
               gameState = \<lparr>Puzzle = puzzle, Player1State = Some Map.empty,
                            Player2State = Some Map.empty, StartTime = now,
                            IsFinished = False\<rparr>;
               startData = StartData puzzle (StartTime gameState)
           in Some (s\<lparr>waitingPlayer := None,
                      sessions := sessions s @ [(match, gameState)],
                      sent := sent s
                        @ sendMessage (Conn (Player1 match)) ''game_start'' startData
                        @ sendMessage (Conn (Player2 match)) ''game_start'' startData\<rparr>)))"
| "wsHandler (WaitFrame player msg) s =
     (case handleMessage msg None ''waiting'' None of
        Panic \<Rightarrow> None
      | Return gameState ws \<Rightarrow> Some (s\<lparr>sent := sent s @ ws\<rparr>))"
| "wsHandler (WaitClosed player) s =
     (case waitingPlayer s of
        None \<Rightarrow> Some s
      | Some w \<Rightarrow> if ID w = ID player then Some (s\<lparr>waitingPlayer := None\<rparr>) else Some s)"

text \<open>The server over a sequence of events, in the order in which the steps happen.\<close>

fun serve :: "event list \<Rightarrow> Server \<Rightarrow> Server option" where
  "serve [] s = Some s"
| "serve (e # es) s = (case wsHandler e s of None \<Rightarrow> None | Some s' \<Rightarrow> serve es s')"

section \<open>The two pumps of a match\<close>

text \<open>
  Lines 259 to 283: one goroutine per side reads frames and hands each to
  \<^verbatim>\<open>handleMessage\<close> with the shared game state, its own label and the connection of the
  other side. The frames of both sides are taken in the order in which the calls of
  \<^verbatim>\<open>handleMessage\<close> happen; a panic ends the process.
\<close>

datatype side = Side1 | Side2

definition pump :: "Match \<Rightarrow> side \<Rightarrow> json option \<Rightarrow> GameState option \<Rightarrow> result" where
  "pump match sd msg gameState =
     (case sd of
        Side1 \<Rightarrow> handleMessage msg gameState ''player1'' (Some (Conn (Player2 match)))
      | Side2 \<Rightarrow> handleMessage msg gameState ''player2'' (Some (Conn (Player1 match))))"

fun relay :: "Match \<Rightarrow> (side \<times> json option) list \<Rightarrow> GameState option \<Rightarrow> result" where
  "relay match [] gameState = Return gameState []"
| "relay match ((sd, msg) # rest) gameState =
     (case pump match sd msg gameState of
        Panic \<Rightarrow> Panic
      | Return gameState' ws \<Rightarrow>
          (case relay match rest gameState' of
             Panic \<Rightarrow> Panic
           | Return gameState'' ws' \<Rightarrow> Return gameState'' (ws @ ws')))"

section \<open>Decoding\<close>

lemma foldName_fields:
  "foldName ''type'' = ''TYPE''" "foldName ''data'' = ''DATA''"
  "foldName ''cell'' = ''CELL''" "foldName ''letter'' = ''LETTER''"
  "foldName ''winner'' = ''WINNER''"
  by (simp_all add: foldName_def foldChar_def)

lemma unmarshalMessage_envelope:
  assumes "env = [(''type'', JString t), (''data'', d)]
         \<or> env = [(''data'', d), (''type'', JString t)]"
  shows "unmarshalMessage (Some (JObject env)) = Inr \<lparr>Type = t, Data = Some d\<rparr>"
  using assms by (auto simp: unmarshalMessage_def foldName_fields)

lemma unmarshalBoardUpdate_fields:
  assumes "pl = [(''cell'', JString c), (''letter'', JString l)]
         \<or> pl = [(''letter'', JString l), (''cell'', JString c)]"
  shows "unmarshalBoardUpdate (Some (JObject pl)) = Inr \<lparr>Cell = c, Letter = l\<rparr>"
  using assms by (auto simp: unmarshalBoardUpdate_def foldName_fields)

lemma storeString_mismatch:
  assumes "v \<noteq> JNull" and "\<forall>s. v \<noteq> JString s"
  shows "storeString v old = Inl UnmarshalTypeError"
  using assms by (cases v) simp_all

text \<open>Once an error is saved, the object loop ends with an error.\<close>

lemma boardUpdateObject_keeps_error:
  "\<exists>e. snd (boardUpdateObject kvs d (Some err)) = Some e"
proof (induction kvs arbitrary: d err)
  case Nil
  show ?case by simp
next
  case (Cons kv kvs)
  obtain k v where kv: "kv = (k, v)" by (cases kv)
  show ?case
    using Cons.IH by (simp add: kv saveError_def split: sum.splits)
qed

lemma boardUpdateObject_mismatch:
  assumes "(k, v) \<in> set kvs"
    and "foldName k = ''CELL'' \<or> foldName k = ''LETTER''"
    and "v \<noteq> JNull" and "\<forall>s. v \<noteq> JString s"
  shows "\<exists>e. snd (boardUpdateObject kvs d saved) = Some e"
  using assms(1)
proof (induction kvs arbitrary: d saved)
  case Nil
  then show ?case by simp
next
  case (Cons kv kvs)
  obtain k' v' where kv: "kv = (k', v')" by (cases kv)
  show ?case
  proof (cases "(k, v) = kv")
    case True
    have st: "storeString v old = Inl UnmarshalTypeError" for old
      using assms(3,4) by (rule storeString_mismatch)
    obtain e where e: "saveError saved UnmarshalTypeError = Some e"
      by (cases saved) (simp_all add: saveError_def)
    show ?thesis
      using True[symmetric] assms(2) boardUpdateObject_keeps_error[of kvs d e]
      by (auto simp: st e)
  next
    case False
    then have "(k, v) \<in> set kvs" using Cons.prems by auto
    then show ?thesis
      using Cons.IH by (simp add: kv split: sum.splits)
  qed
qed

lemma unmarshalBoardUpdate_rejects:
  assumes "raw = None
         \<or> (\<exists>b. raw = Some (JBool b)) \<or> (\<exists>n. raw = Some (JNumber n))
         \<or> (\<exists>s. raw = Some (JString s)) \<or> (\<exists>xs. raw = Some (JArray xs))
         \<or> (\<exists>kvs k v. raw = Some (JObject kvs) \<and> (k, v) \<in> set kvs
              \<and> (foldName k = ''CELL'' \<or> foldName k = ''LETTER'')
              \<and> v \<noteq> JNull \<and> (\<forall>s. v \<noteq> JString s))"
  shows "\<exists>e. unmarshalBoardUpdate raw = Inl e"
proof -
  have obj: "\<exists>e. unmarshalBoardUpdate (Some (JObject kvs)) = Inl e"
    if h: "(k, v) \<in> set kvs" "foldName k = ''CELL'' \<or> foldName k = ''LETTER''"
       "v \<noteq> JNull" "\<forall>s. v \<noteq> JString s" for kvs k v
  proof -
    obtain e where "snd (boardUpdateObject kvs \<lparr>Cell = [], Letter = []\<rparr> None) = Some e"
      using boardUpdateObject_mismatch[OF h] by blast
    then show ?thesis
      by (cases "boardUpdateObject kvs \<lparr>Cell = [], Letter = []\<rparr> None")
         (simp add: unmarshalBoardUpdate_def)
  qed
  from assms show ?thesis
    by (auto simp: unmarshalBoardUpdate_def dest: obj)
qed

section \<open>What one call of handleMessage can do\<close>

lemma handleMessage_nil:
  "handleMessage msg None playerID None = Return None []"
  by (simp add: handleMessage_def updateBoard_def broadcast_def split: sum.splits)

lemma handleMessage_nil_state:
  "\<exists>ws. handleMessage msg None playerID opponentConn = Return None ws"
  by (simp add: handleMessage_def updateBoard_def split: sum.splits)

text \<open>
  On a game state a call panics, or leaves the state as it is, or assigns in the map of
  the calling player, or sets the finished flag for a \<^verbatim>\<open>game_over\<close>.
\<close>

lemma handleMessage_outcomes:
  "handleMessage msg (Some gs) pid oc = Panic
   \<or> (\<exists>ws. handleMessage msg (Some gs) pid oc = Return (Some gs) ws)
   \<or> (\<exists>ws f. pid = ''player1'' \<and>
         handleMessage msg (Some gs) pid oc = Return (Some (gs\<lparr>Player1State := Some f\<rparr>)) ws)
   \<or> (\<exists>ws f. pid = ''player2'' \<and>
         handleMessage msg (Some gs) pid oc = Return (Some (gs\<lparr>Player2State := Some f\<rparr>)) ws)
   \<or> (\<exists>ws m. unmarshalMessage msg = Inr m \<and> Type m = ''game_over'' \<and>
         handleMessage msg (Some gs) pid oc = Return (Some (gs\<lparr>IsFinished := True\<rparr>)) ws)"
  by (auto simp: handleMessage_def updateBoard_def assign_def split: sum.splits option.splits)

lemma handleMessage_no_panic:
  assumes "Player1State gs \<noteq> None" and "Player2State gs \<noteq> None"
  shows "handleMessage msg (Some gs) pid oc \<noteq> Panic"
  using assms
  by (auto simp: handleMessage_def updateBoard_def assign_def split: sum.splits option.splits)

lemma handleMessage_monotone:
  "handleMessage msg (Some gs) pid oc = Panic
   \<or> (\<exists>gs' ws. handleMessage msg (Some gs) pid oc = Return (Some gs') ws
         \<and> (IsFinished gs \<longrightarrow> IsFinished gs')
         \<and> (IsFinished gs' \<noteq> IsFinished gs \<longrightarrow>
              (\<exists>m. unmarshalMessage msg = Inr m \<and> Type m = ''game_over'')))"
  using handleMessage_outcomes[of msg gs pid oc] by (elim disjE exE conjE) auto

lemma handleMessage_allocated:
  assumes "Player1State gs \<noteq> None" and "Player2State gs \<noteq> None"
  shows "\<exists>gs' ws. handleMessage msg (Some gs) pid oc = Return (Some gs') ws
           \<and> Player1State gs' \<noteq> None \<and> Player2State gs' \<noteq> None"
  using handleMessage_outcomes[of msg gs pid oc] handleMessage_no_panic[OF assms, of msg pid oc]
    assms
  by (elim disjE exE conjE) auto

lemma handleMessage_game_over:
  "handleMessage
     (Some (JObject [(''type'', JString ''game_over''),
                     (''data'', JObject [(''winner'', JString w)])]))
     gameState pid (Some oc) =
   Return (map_option (\<lambda>gs. gs\<lparr>IsFinished := True\<rparr>) gameState)
     [(oc, JObject [(''type'', JString ''game_over''),
                    (''data'', JObject [(''winner'', JString w)])])]"
  by (simp add: handleMessage_def unmarshalMessage_def unmarshalGameOver_def foldName_fields
      broadcast_def sendMessage_def fullMessage_def)

section \<open>What the pumps can do\<close>

lemma relay_allocated:
  assumes "Player1State gs \<noteq> None" and "Player2State gs \<noteq> None"
  shows "\<exists>gs' ws. relay match evs (Some gs) = Return (Some gs') ws
           \<and> Player1State gs' \<noteq> None \<and> Player2State gs' \<noteq> None"
  using assms
proof (induction evs arbitrary: gs)
  case Nil
  then show ?case by simp
next
  case (Cons ev evs)
  obtain sd msg where ev: "ev = (sd, msg)" by (cases ev)
  obtain gs1 ws1 where s1: "pump match sd msg (Some gs) = Return (Some gs1) ws1"
      "Player1State gs1 \<noteq> None" "Player2State gs1 \<noteq> None"
    using handleMessage_allocated[OF Cons.prems] by (cases sd) (fastforce simp: pump_def)+
  obtain gs2 ws2 where s2: "relay match evs (Some gs1) = Return (Some gs2) ws2"
      "Player1State gs2 \<noteq> None" "Player2State gs2 \<noteq> None"
    using Cons.IH[OF s1(2,3)] by blast
  show ?case
    using s1 s2 by (simp add: ev)
qed

lemma relay_monotone:
  "relay match evs (Some gs) = Panic
   \<or> (\<exists>gs' ws. relay match evs (Some gs) = Return (Some gs') ws
         \<and> (IsFinished gs \<longrightarrow> IsFinished gs'))"
proof (induction evs arbitrary: gs)
  case Nil
  show ?case by simp
next
  case (Cons ev evs)
  obtain sd msg where ev: "ev = (sd, msg)" by (cases ev)
  have "pump match sd msg (Some gs) = Panic
      \<or> (\<exists>gs1 ws1. pump match sd msg (Some gs) = Return (Some gs1) ws1
            \<and> (IsFinished gs \<longrightarrow> IsFinished gs1))"
    using handleMessage_monotone[of msg gs] by (cases sd) (fastforce simp: pump_def)+
  then show ?case
  proof (elim disjE exE conjE)
    assume "pump match sd msg (Some gs) = Panic"
    then show ?thesis by (simp add: ev)
  next
    fix gs1 ws1
    assume p: "pump match sd msg (Some gs) = Return (Some gs1) ws1"
      and m: "IsFinished gs \<longrightarrow> IsFinished gs1"
    from Cons.IH[of gs1] show ?thesis
      using p m by (elim disjE exE conjE) (simp_all add: ev)
  qed
qed

lemma relay_game_overs:
  "relay match
     (map (\<lambda>(sd, w). (sd, Some (JObject [(''type'', JString ''game_over''),
                                         (''data'', JObject [(''winner'', JString w)])]))) evs)
     (Some gs) =
   Return (Some (if evs = [] then gs else gs\<lparr>IsFinished := True\<rparr>))
     (map (\<lambda>(sd, w). (Conn (case sd of Side1 \<Rightarrow> Player2 match | Side2 \<Rightarrow> Player1 match),
                       JObject [(''type'', JString ''game_over''),
                                (''data'', JObject [(''winner'', JString w)])])) evs)"
proof (induction evs arbitrary: gs)
  case Nil
  show ?case by simp
next
  case (Cons ev evs)
  obtain sd w where ev: "ev = (sd, w)" by (cases ev)
  show ?case
    by (cases sd) (simp_all add: ev pump_def handleMessage_game_over Cons.IH)
qed

section \<open>What the matchmaker can do\<close>

lemma serve_append:
  "serve (es @ es') s = (case serve es s of None \<Rightarrow> None | Some s' \<Rightarrow> serve es' s')"
  by (induction es arbitrary: s) (auto split: option.splits)

lemma serve_WaitFrames:
  "serve (map (\<lambda>(p, msg). WaitFrame p msg) frames) s = Some s"
  by (induction frames) (auto simp: handleMessage_nil)

lemma Connect_waits:
  assumes "waitingPlayer s = None"
  shows "wsHandler (Connect player connectDB loadPuzzle now) s =
           Some (s\<lparr>waitingPlayer := Some player\<rparr>)"
  using assms by simp

lemma Connect_paired:
  assumes "waitingPlayer s = Some opponent"
  shows "wsHandler (Connect player connectDB loadPuzzle now) s =
           Some (s\<lparr>waitingPlayer := None,
             sessions := sessions s @
               [(\<lparr>Player1 = opponent, Player2 = player\<rparr>,
                 \<lparr>Puzzle = loadedPuzzle connectDB loadPuzzle, Player1State = Some Map.empty,
                  Player2State = Some Map.empty, StartTime = now, IsFinished = False\<rparr>)],
             sent := sent s @
               [(Conn opponent, JObject [(''type'', JString ''game_start''),
                   (''data'', JObject [(''puzzle'', marshalPuzzle (loadedPuzzle connectDB loadPuzzle)),
                                       (''start_time'', JString now)])]),
                (Conn player, JObject [(''type'', JString ''game_start''),
                   (''data'', JObject [(''puzzle'', marshalPuzzle (loadedPuzzle connectDB loadPuzzle)),
                                       (''start_time'', JString now)])])]\<rparr>)"
  using assms by (simp add: Let_def sendMessage_def fullMessage_def)

section \<open>Board updates\<close>

text \<open>
  Claim C1. A well-formed \<^verbatim>\<open>board_update\<close> envelope is the JSON object with the members
  \<^verbatim>\<open>type\<close> (the string \<^verbatim>\<open>board_update\<close>) and \<^verbatim>\<open>data\<close>, where \<^verbatim>\<open>data\<close> is the object with the
  string members \<^verbatim>\<open>cell\<close> and \<^verbatim>\<open>letter\<close>; the members may come in either order. Dispatched
  for \<^verbatim>\<open>player1\<close> or \<^verbatim>\<open>player2\<close> with a game state (its two maps allocated, as
  \<^verbatim>\<open>wsHandler\<close> creates it) and with an opponent connection, \<^verbatim>\<open>handleMessage\<close> stores the
  letter under the cell in the map of that player, leaves the rest of the state as it
  is, and writes exactly one frame to the opponent connection: the \<^verbatim>\<open>board_update\<close>
  envelope with the same cell and letter.
\<close>

theorem board_update_applied_and_forwarded:
  assumes env: "env = [(''type'', JString ''board_update''), (''data'', JObject pl)]
              \<or> env = [(''data'', JObject pl), (''type'', JString ''board_update'')]"
    and pl: "pl = [(''cell'', JString c), (''letter'', JString l)]
           \<or> pl = [(''letter'', JString l), (''cell'', JString c)]"
    and g1: "Player1State gs = Some f1"
    and g2: "Player2State gs = Some f2"
  shows "handleMessage (Some (JObject env)) (Some gs) ''player1'' (Some oc) =
           Return (Some (gs\<lparr>Player1State := Some (f1(c \<mapsto> l))\<rparr>))
             [(oc, JObject [(''type'', JString ''board_update''),
                            (''data'', JObject [(''cell'', JString c), (''letter'', JString l)])])]
       \<and> handleMessage (Some (JObject env)) (Some gs) ''player2'' (Some oc) =
           Return (Some (gs\<lparr>Player2State := Some (f2(c \<mapsto> l))\<rparr>))
             [(oc, JObject [(''type'', JString ''board_update''),
                            (''data'', JObject [(''cell'', JString c), (''letter'', JString l)])])]"
proof -
  have m: "unmarshalMessage (Some (JObject env)) =
             Inr \<lparr>Type = ''board_update'', Data = Some (JObject pl)\<rparr>"
    using env by (rule unmarshalMessage_envelope)
  have d: "unmarshalBoardUpdate (Some (JObject pl)) = Inr \<lparr>Cell = c, Letter = l\<rparr>"
    using pl by (rule unmarshalBoardUpdate_fields)
  show ?thesis
    by (simp add: handleMessage_def m d updateBoard_def assign_def g1 g2 broadcast_def
        sendMessage_def fullMessage_def)
qed

text \<open>
  The scenario of the specification: player one sends
  \<^verbatim>\<open>{"type":"board_update","data":{"cell":"1A1","letter":"C"}}\<close> into a fresh game.
\<close>

theorem board_update_applied_and_forwarded_witness:
  "handleMessage
     (Some (JObject [(''type'', JString ''board_update''),
                     (''data'', JObject [(''cell'', JString ''1A1''), (''letter'', JString ''C'')])]))
     (Some \<lparr>Puzzle = dummyPuzzle, Player1State = Some Map.empty,
            Player2State = Some Map.empty, StartTime = ''2025-01-01T00:00:00Z'',
            IsFinished = False\<rparr>)
     ''player1'' (Some 2) =
   Return
     (Some \<lparr>Puzzle = dummyPuzzle, Player1State = Some [''1A1'' \<mapsto> ''C''],
            Player2State = Some Map.empty, StartTime = ''2025-01-01T00:00:00Z'',
            IsFinished = False\<rparr>)
     [(2, JObject [(''type'', JString ''board_update''),
                   (''data'', JObject [(''cell'', JString ''1A1''), (''letter'', JString ''C'')])])]"
  using board_update_applied_and_forwarded
    [where env = "[(''type'', JString ''board_update''),
                   (''data'', JObject [(''cell'', JString ''1A1''), (''letter'', JString ''C'')])]"
       and pl = "[(''cell'', JString ''1A1''), (''letter'', JString ''C'')]"
       and c = "''1A1''" and l = "''C''"
       and gs = "\<lparr>Puzzle = dummyPuzzle, Player1State = Some Map.empty,
                  Player2State = Some Map.empty, StartTime = ''2025-01-01T00:00:00Z'',
                  IsFinished = False\<rparr>"
       and ?f1.0 = Map.empty and ?f2.0 = Map.empty and oc = 2]
  by simp

text \<open>
  Claim C2, as stated, fails: \<^verbatim>\<open>json.Unmarshal\<close> does not report a member that is absent,
  it leaves the field at its zero value. The envelope
  \<^verbatim>\<open>{"type":"board_update","data":{"cell":"1A1"}}\<close> from player one is therefore applied
  with the empty letter: the map of player one changes and one frame goes to the
  opponent.
\<close>

theorem board_update_missing_letter_counterexample:
  "handleMessage
     (Some (JObject [(''type'', JString ''board_update''),
                     (''data'', JObject [(''cell'', JString ''1A1'')])]))
     (Some \<lparr>Puzzle = dummyPuzzle, Player1State = Some Map.empty,
            Player2State = Some Map.empty, StartTime = ''2025-01-01T00:00:00Z'',
            IsFinished = False\<rparr>)
     ''player1'' (Some 2) =
   Return
     (Some \<lparr>Puzzle = dummyPuzzle, Player1State = Some [''1A1'' \<mapsto> []],
            Player2State = Some Map.empty, StartTime = ''2025-01-01T00:00:00Z'',
            IsFinished = False\<rparr>)
     [(2, JObject [(''type'', JString ''board_update''),
                   (''data'', JObject [(''cell'', JString ''1A1''), (''letter'', JString [])])])]
   \<and> handleMessage
     (Some (JObject [(''type'', JString ''board_update''),
                     (''data'', JObject [(''cell'', JString ''1A1'')])]))
     (Some \<lparr>Puzzle = dummyPuzzle, Player1State = Some Map.empty,
            Player2State = Some Map.empty, StartTime = ''2025-01-01T00:00:00Z'',
            IsFinished = False\<rparr>)
     ''player1'' (Some 2) \<noteq>
   Return
     (Some \<lparr>Puzzle = dummyPuzzle, Player1State = Some Map.empty,
            Player2State = Some Map.empty, StartTime = ''2025-01-01T00:00:00Z'',
            IsFinished = False\<rparr>)
     []"
  by (simp add: handleMessage_def unmarshalMessage_def unmarshalBoardUpdate_def
      foldName_fields updateBoard_def assign_def broadcast_def sendMessage_def
      fullMessage_def)

text \<open>
  Claim C2, amended. What \<^verbatim>\<open>handleMessage\<close> drops is a \<^verbatim>\<open>board_update\<close> whose payload
  \<^verbatim>\<open>json.Unmarshal\<close> rejects: the envelope has no \<^verbatim>\<open>data\<close> member, or \<^verbatim>\<open>data\<close> is a boolean,
  a number, a string or an array, or \<^verbatim>\<open>data\<close> is an object in which a member whose key
  matches \<^verbatim>\<open>cell\<close> or \<^verbatim>\<open>letter\<close> (in any letter case) holds a value that is neither a string
  nor \<^verbatim>\<open>null\<close>. For every such envelope, every state (nil or not), every player label and
  every opponent connection, the state stays as it is and nothing is written.
\<close>

theorem undecodable_board_update_dropped:
  assumes "unmarshalMessage msg = Inr m"
    and "Type m = ''board_update''"
    and "Data m = None
       \<or> (\<exists>b. Data m = Some (JBool b)) \<or> (\<exists>n. Data m = Some (JNumber n))
       \<or> (\<exists>s. Data m = Some (JString s)) \<or> (\<exists>xs. Data m = Some (JArray xs))
       \<or> (\<exists>kvs k v. Data m = Some (JObject kvs) \<and> (k, v) \<in> set kvs
            \<and> (foldName k = ''CELL'' \<or> foldName k = ''LETTER'')
            \<and> v \<noteq> JNull \<and> (\<forall>s. v \<noteq> JString s))"
  shows "handleMessage msg gameState playerID opponentConn = Return gameState []"
proof -
  obtain e where "unmarshalBoardUpdate (Data m) = Inl e"
    using unmarshalBoardUpdate_rejects[OF assms(3)] by blast
  then show ?thesis
    by (simp add: handleMessage_def assms(1,2))
qed

text \<open>The envelope \<^verbatim>\<open>{"type":"board_update","data":{"cell":"1A1","letter":5}}\<close> is dropped.\<close>

theorem undecodable_board_update_dropped_witness:
  "handleMessage
     (Some (JObject [(''type'', JString ''board_update''),
                     (''data'', JObject [(''cell'', JString ''1A1''), (''letter'', JNumber ''5'')])]))
     (Some \<lparr>Puzzle = dummyPuzzle, Player1State = Some Map.empty,
            Player2State = Some Map.empty, StartTime = ''2025-01-01T00:00:00Z'',
            IsFinished = False\<rparr>)
     ''player1'' (Some 2) =
   Return
     (Some \<lparr>Puzzle = dummyPuzzle, Player1State = Some Map.empty,
            Player2State = Some Map.empty, StartTime = ''2025-01-01T00:00:00Z'',
            IsFinished = False\<rparr>)
     []"
proof -
  have m: "unmarshalMessage
             (Some (JObject [(''type'', JString ''board_update''),
                (''data'', JObject [(''cell'', JString ''1A1''), (''letter'', JNumber ''5'')])])) =
           Inr \<lparr>Type = ''board_update'',
                Data = Some (JObject [(''cell'', JString ''1A1''), (''letter'', JNumber ''5'')])\<rparr>"
    by (simp add: unmarshalMessage_def foldName_fields)
  have bad: "(''letter'', JNumber ''5'') \<in> set [(''cell'', JString ''1A1''), (''letter'', JNumber ''5'')]
       \<and> (foldName ''letter'' = ''CELL'' \<or> foldName ''letter'' = ''LETTER'')
       \<and> JNumber ''5'' \<noteq> JNull \<and> (\<forall>s. JNumber ''5'' \<noteq> JString s)"
    by (simp add: foldName_fields)
  show ?thesis
    by (rule undecodable_board_update_dropped[OF m]) (use bad in auto)
qed

section \<open>Game over\<close>

text \<open>
  Claim C3. A \<^verbatim>\<open>game_over\<close> envelope \<^verbatim>\<open>{"type":"game_over","data":{"winner":w}}\<close>, dispatched
  with any player label, sets \<^verbatim>\<open>IsFinished\<close> and is written once to the opponent
  connection. Dispatching a second one, from any side and for any winner, into the
  resulting state gives that state again. For every non-empty sequence of such envelopes
  read by the two pumps of a match, in any interleaving of the sides, the final state is
  the initial one with \<^verbatim>\<open>IsFinished\<close> set (the state after a single \<^verbatim>\<open>game_over\<close>) and every
  envelope of the sequence has been written, in order, to the connection of the side
  opposite to the one it came from.
\<close>

theorem game_over_finishes_idempotent_forwarded:
  assumes "evs \<noteq> []"
  shows "handleMessage
           (Some (JObject [(''type'', JString ''game_over''),
                           (''data'', JObject [(''winner'', JString w)])]))
           (Some gs) pid (Some oc) =
         Return (Some (gs\<lparr>IsFinished := True\<rparr>))
           [(oc, JObject [(''type'', JString ''game_over''),
                          (''data'', JObject [(''winner'', JString w)])])]
       \<and> handleMessage
           (Some (JObject [(''type'', JString ''game_over''),
                           (''data'', JObject [(''winner'', JString w')])]))
           (Some (gs\<lparr>IsFinished := True\<rparr>)) pid' (Some oc') =
         Return (Some (gs\<lparr>IsFinished := True\<rparr>))
           [(oc', JObject [(''type'', JString ''game_over''),
                           (''data'', JObject [(''winner'', JString w')])])]
       \<and> relay match
           (map (\<lambda>(sd, w). (sd, Some (JObject [(''type'', JString ''game_over''),
                                               (''data'', JObject [(''winner'', JString w)])]))) evs)
           (Some gs) =
         Return (Some (gs\<lparr>IsFinished := True\<rparr>))
           (map (\<lambda>(sd, w). (Conn (case sd of Side1 \<Rightarrow> Player2 match | Side2 \<Rightarrow> Player1 match),
                             JObject [(''type'', JString ''game_over''),
                                      (''data'', JObject [(''winner'', JString w)])])) evs)"
  using assms by (simp add: handleMessage_game_over relay_game_overs)

text \<open>Both sides declare the game over, one after the other.\<close>

theorem game_over_finishes_idempotent_forwarded_witness:
  "relay \<lparr>Player1 = \<lparr>ID = ''10.0.0.1:5000'', Conn = 1\<rparr>,
          Player2 = \<lparr>ID = ''10.0.0.2:5000'', Conn = 2\<rparr>\<rparr>
     [(Side1, Some (JObject [(''type'', JString ''game_over''),
                             (''data'', JObject [(''winner'', JString ''player1'')])])),
      (Side2, Some (JObject [(''type'', JString ''game_over''),
                             (''data'', JObject [(''winner'', JString ''player1'')])]))]
     (Some \<lparr>Puzzle = dummyPuzzle, Player1State = Some Map.empty,
            Player2State = Some Map.empty, StartTime = ''2025-01-01T00:00:00Z'',
            IsFinished = False\<rparr>) =
   Return
     (Some \<lparr>Puzzle = dummyPuzzle, Player1State = Some Map.empty,
            Player2State = Some Map.empty, StartTime = ''2025-01-01T00:00:00Z'',
            IsFinished = True\<rparr>)
     [(2, JObject [(''type'', JString ''game_over''),
                   (''data'', JObject [(''winner'', JString ''player1'')])]),
      (1, JObject [(''type'', JString ''game_over''),
                   (''data'', JObject [(''winner'', JString ''player1'')])])]"
  using game_over_finishes_idempotent_forwarded
    [where evs = "[(Side1, ''player1''), (Side2, ''player1'')]" and w = "''player1''"
       and gs = "\<lparr>Puzzle = dummyPuzzle, Player1State = Some Map.empty,
                  Player2State = Some Map.empty, StartTime = ''2025-01-01T00:00:00Z'',
                  IsFinished = False\<rparr>"
       and pid = "''player1''" and oc = 2 and w' = "''player1''" and pid' = "''player2''"
       and oc' = 1
       and match = "\<lparr>Player1 = \<lparr>ID = ''10.0.0.1:5000'', Conn = 1\<rparr>,
                     Player2 = \<lparr>ID = ''10.0.0.2:5000'', Conn = 2\<rparr>\<rparr>"]
  by simp

section \<open>Session start\<close>

text \<open>
  Claim C4, as stated, fails on the type tag: the frames \<^verbatim>\<open>wsHandler\<close> writes when a match
  is formed carry the tag \<^verbatim>\<open>game_start\<close>, not \<^verbatim>\<open>session_start\<close>. Here the second player
  arrives while the first one waits and the puzzle lookup succeeds.
\<close>

theorem session_start_tag_counterexample:
  "map_option sent
     (wsHandler
        (Connect \<lparr>ID = ''10.0.0.2:5000'', Conn = 2\<rparr> (Inr ())
           (Inr \<lparr>Grid = ''g'', Clues = [], Answers = []\<rparr>) ''2025-01-01T00:00:00Z'')
        \<lparr>waitingPlayer = Some \<lparr>ID = ''10.0.0.1:5000'', Conn = 1\<rparr>, sessions = [], sent = []\<rparr>) =
   Some
     [(1, JObject [(''type'', JString ''game_start''),
                   (''data'', JObject [(''puzzle'', JObject [(''grid'', JString ''g''),
                                          (''clues'', JObject []), (''answers'', JObject [])]),
                                       (''start_time'', JString ''2025-01-01T00:00:00Z'')])]),
      (2, JObject [(''type'', JString ''game_start''),
                   (''data'', JObject [(''puzzle'', JObject [(''grid'', JString ''g''),
                                          (''clues'', JObject []), (''answers'', JObject [])]),
                                       (''start_time'', JString ''2025-01-01T00:00:00Z'')])])]
   \<and> map_option sent
     (wsHandler
        (Connect \<lparr>ID = ''10.0.0.2:5000'', Conn = 2\<rparr> (Inr ())
           (Inr \<lparr>Grid = ''g'', Clues = [], Answers = []\<rparr>) ''2025-01-01T00:00:00Z'')
        \<lparr>waitingPlayer = Some \<lparr>ID = ''10.0.0.1:5000'', Conn = 1\<rparr>, sessions = [], sent = []\<rparr>) \<noteq>
   Some
     [(1, JObject [(''type'', JString ''session_start''),
                   (''data'', JObject [(''puzzle'', JObject [(''grid'', JString ''g''),
                                          (''clues'', JObject []), (''answers'', JObject [])]),
                                       (''start_time'', JString ''2025-01-01T00:00:00Z'')])]),
      (2, JObject [(''type'', JString ''session_start''),
                   (''data'', JObject [(''puzzle'', JObject [(''grid'', JString ''g''),
                                          (''clues'', JObject []), (''answers'', JObject [])]),
                                       (''start_time'', JString ''2025-01-01T00:00:00Z'')])])]"
  by (simp add: Let_def sendMessage_def fullMessage_def loadedPuzzle_def
      marshalPuzzle_def marshalMap_def)

text \<open>
  Claim C4, amended. When a connection arrives while a player waits, \<^verbatim>\<open>wsHandler\<close> forms
  the match of the waiting player and the new one and writes two frames, the first to
  the connection of the waiting player and the second to the new connection. Both are
  the envelope with the type tag \<^verbatim>\<open>game_start\<close> whose payload holds the puzzle of the
  session under \<^verbatim>\<open>puzzle\<close> and the start time of the game state under \<^verbatim>\<open>start_time\<close>.
\<close>

theorem game_start_sent_to_both:
  assumes "waitingPlayer s = Some opponent"
  shows "\<exists>s'. wsHandler (Connect player connectDB loadPuzzle now) s = Some s'
         \<and> sent s' =
             sent s @
               [(Conn opponent, JObject [(''type'', JString ''game_start''),
                   (''data'', JObject [(''puzzle'', marshalPuzzle (loadedPuzzle connectDB loadPuzzle)),
                                       (''start_time'', JString now)])]),
                (Conn player, JObject [(''type'', JString ''game_start''),
                   (''data'', JObject [(''puzzle'', marshalPuzzle (loadedPuzzle connectDB loadPuzzle)),
                                       (''start_time'', JString now)])])]
         \<and> sessions s' =
             sessions s @
               [(\<lparr>Player1 = opponent, Player2 = player\<rparr>,
                 \<lparr>Puzzle = loadedPuzzle connectDB loadPuzzle, Player1State = Some Map.empty,
                  Player2State = Some Map.empty, StartTime = now, IsFinished = False\<rparr>)]"
  by (simp add: Connect_paired[OF assms] del: wsHandler.simps)

theorem game_start_sent_to_both_witness:
  "\<exists>s'. wsHandler
          (Connect \<lparr>ID = ''10.0.0.2:5000'', Conn = 2\<rparr> (Inr ())
             (Inr \<lparr>Grid = ''g'', Clues = [], Answers = []\<rparr>) ''2025-01-01T00:00:00Z'')
          \<lparr>waitingPlayer = Some \<lparr>ID = ''10.0.0.1:5000'', Conn = 1\<rparr>, sessions = [], sent = []\<rparr>
        = Some s'
      \<and> sent s' =
     [(1, JObject [(''type'', JString ''game_start''),
                   (''data'', JObject [(''puzzle'', JObject [(''grid'', JString ''g''),
                                          (''clues'', JObject []), (''answers'', JObject [])]),
                                       (''start_time'', JString ''2025-01-01T00:00:00Z'')])]),
      (2, JObject [(''type'', JString ''game_start''),
                   (''data'', JObject [(''puzzle'', JObject [(''grid'', JString ''g''),
                                          (''clues'', JObject []), (''answers'', JObject [])]),
                                       (''start_time'', JString ''2025-01-01T00:00:00Z'')])])]"
  using game_start_sent_to_both
    [where s = "\<lparr>waitingPlayer = Some \<lparr>ID = ''10.0.0.1:5000'', Conn = 1\<rparr>,
                  sessions = [], sent = []\<rparr>"
       and opponent = "\<lparr>ID = ''10.0.0.1:5000'', Conn = 1\<rparr>"
       and player = "\<lparr>ID = ''10.0.0.2:5000'', Conn = 2\<rparr>"
       and connectDB = "Inr ()" and loadPuzzle = "Inr \<lparr>Grid = ''g'', Clues = [], Answers = []\<rparr>"
       and now = "''2025-01-01T00:00:00Z''"]
  by (auto simp: loadedPuzzle_def marshalPuzzle_def marshalMap_def simp del: wsHandler.simps)

text \<open>
  Claim C7. When the puzzle lookup fails, either because \<^verbatim>\<open>ConnectDB\<close> returns an error or
  because \<^verbatim>\<open>LoadPuzzle\<close> does, the match is still formed, its game state holds
  \<^verbatim>\<open>dummyPuzzle\<close>, and the start frame written to each of the two connections carries the
  grid, the clues and the answers of \<^verbatim>\<open>dummyPuzzle\<close>.
\<close>

theorem lookup_failure_uses_dummy_puzzle:
  assumes "connectDB = Inl e \<or> (connectDB = Inr () \<and> loadPuzzle = Inl e)"
    and "waitingPlayer s = Some opponent"
  shows "\<exists>s'. wsHandler (Connect player connectDB loadPuzzle now) s = Some s'
         \<and> sent s' =
             sent s @
               [(Conn opponent, JObject [(''type'', JString ''game_start''),
                   (''data'', JObject
                     [(''puzzle'', JObject
                        [(''grid'', JString ''dummy grid layout''),
                         (''clues'', JObject
                            [(''7-Across'', JString ''Example clue for 7-Across''),
                             (''7-Down'', JString ''Example clue for 7-Down'')]),
                         (''answers'', JObject
                            [(''7-Across'', JString ''EXAMPLE''),
                             (''7-Down'', JString ''EXAMPLE'')])]),
                      (''start_time'', JString now)])]),
                (Conn player, JObject [(''type'', JString ''game_start''),
                   (''data'', JObject
                     [(''puzzle'', JObject
                        [(''grid'', JString ''dummy grid layout''),
                         (''clues'', JObject
                            [(''7-Across'', JString ''Example clue for 7-Across''),
                             (''7-Down'', JString ''Example clue for 7-Down'')]),
                         (''answers'', JObject
                            [(''7-Across'', JString ''EXAMPLE''),
                             (''7-Down'', JString ''EXAMPLE'')])]),
                      (''start_time'', JString now)])])]
         \<and> sessions s' =
             sessions s @
               [(\<lparr>Player1 = opponent, Player2 = player\<rparr>,
                 \<lparr>Puzzle = dummyPuzzle, Player1State = Some Map.empty,
                  Player2State = Some Map.empty, StartTime = now, IsFinished = False\<rparr>)]"
proof -
  have "loadedPuzzle connectDB loadPuzzle = dummyPuzzle"
    using assms(1) by (auto simp: loadedPuzzle_def)
  then show ?thesis
    by (simp add: Connect_paired[OF assms(2)] marshalPuzzle_def marshalMap_def dummyPuzzle_def
        del: wsHandler.simps)
qed

text \<open>The database refuses the connection.\<close>

theorem lookup_failure_uses_dummy_puzzle_witness:
  "\<exists>s'. wsHandler
          (Connect \<lparr>ID = ''10.0.0.2:5000'', Conn = 2\<rparr> (Inl (DBError ''connection refused''))
             (Inr \<lparr>Grid = ''g'', Clues = [], Answers = []\<rparr>) ''2025-01-01T00:00:00Z'')
          \<lparr>waitingPlayer = Some \<lparr>ID = ''10.0.0.1:5000'', Conn = 1\<rparr>, sessions = [], sent = []\<rparr>
        = Some s'
      \<and> sent s' =
     [(1, JObject [(''type'', JString ''game_start''),
         (''data'', JObject
           [(''puzzle'', JObject
              [(''grid'', JString ''dummy grid layout''),
               (''clues'', JObject
                  [(''7-Across'', JString ''Example clue for 7-Across''),
                   (''7-Down'', JString ''Example clue for 7-Down'')]),
               (''answers'', JObject
                  [(''7-Across'', JString ''EXAMPLE''),
                   (''7-Down'', JString ''EXAMPLE'')])]),
            (''start_time'', JString ''2025-01-01T00:00:00Z'')])]),
      (2, JObject [(''type'', JString ''game_start''),
         (''data'', JObject
           [(''puzzle'', JObject
              [(''grid'', JString ''dummy grid layout''),
               (''clues'', JObject
                  [(''7-Across'', JString ''Example clue for 7-Across''),
                   (''7-Down'', JString ''Example clue for 7-Down'')]),
               (''answers'', JObject
                  [(''7-Across'', JString ''EXAMPLE''),
                   (''7-Down'', JString ''EXAMPLE'')])]),
            (''start_time'', JString ''2025-01-01T00:00:00Z'')])])]"
  using lookup_failure_uses_dummy_puzzle
    [where connectDB = "Inl (DBError ''connection refused'')"
       and e = "DBError ''connection refused''"
       and loadPuzzle = "Inr \<lparr>Grid = ''g'', Clues = [], Answers = []\<rparr>"
       and s = "\<lparr>waitingPlayer = Some \<lparr>ID = ''10.0.0.1:5000'', Conn = 1\<rparr>,
                  sessions = [], sent = []\<rparr>"
       and opponent = "\<lparr>ID = ''10.0.0.1:5000'', Conn = 1\<rparr>"
       and player = "\<lparr>ID = ''10.0.0.2:5000'', Conn = 2\<rparr>"
       and now = "''2025-01-01T00:00:00Z''"]
  by (auto simp del: wsHandler.simps)

section \<open>Matchmaking\<close>

text \<open>
  Claim C5. Let \<open>A\<close> arrive while nobody waits, and let \<open>B\<close> be the next arrival, with no
  failed read of a waiting loop in between (the waiting loops may read any frames). Then
  the server forms exactly one new match, with \<open>A\<close> as \<^verbatim>\<open>Player1\<close> and \<open>B\<close> as \<^verbatim>\<open>Player2\<close>,
  and nobody waits afterwards: an arrival \<open>C\<close> after \<open>B\<close> becomes the waiting player and
  forms no match, so \<open>A\<close> is not paired with it.
\<close>

theorem arrivals_paired_in_order:
  assumes "waitingPlayer s = None"
  shows "\<exists>s' gs.
           serve (Connect A ca la ta # map (\<lambda>(p, msg). WaitFrame p msg) frames
                    @ [Connect B cb lb tb]) s = Some s'
         \<and> sessions s' = sessions s @ [(\<lparr>Player1 = A, Player2 = B\<rparr>, gs)]
         \<and> waitingPlayer s' = None
         \<and> wsHandler (Connect C cc lc tc) s' = Some (s'\<lparr>waitingPlayer := Some C\<rparr>)"
proof -
  let ?s1 = "s\<lparr>waitingPlayer := Some A\<rparr>"
  have w: "waitingPlayer ?s1 = Some A" by simp
  obtain s2 where s2: "wsHandler (Connect B cb lb tb) ?s1 = Some s2"
      "waitingPlayer s2 = None"
      "sessions s2 = sessions s @
          [(\<lparr>Player1 = A, Player2 = B\<rparr>,
            \<lparr>Puzzle = loadedPuzzle cb lb, Player1State = Some Map.empty,
             Player2State = Some Map.empty, StartTime = tb, IsFinished = False\<rparr>)]"
    by (simp add: Connect_paired[OF w] del: wsHandler.simps)
  have r: "serve (Connect A ca la ta # map (\<lambda>(p, msg). WaitFrame p msg) frames
                  @ [Connect B cb lb tb]) s = Some s2"
    by (simp add: Connect_waits[OF assms] serve_append serve_WaitFrames s2(1)
        del: wsHandler.simps)
  have "wsHandler (Connect C cc lc tc) s2 = Some (s2\<lparr>waitingPlayer := Some C\<rparr>)"
    by (rule Connect_waits[OF s2(2)])
  with r s2 show ?thesis by blast
qed

text \<open>Three arrivals; the first one sends a heartbeat while it waits.\<close>

theorem arrivals_paired_in_order_witness:
  "\<exists>s' gs.
     serve [Connect \<lparr>ID = ''10.0.0.1:5000'', Conn = 1\<rparr> (Inr ()) (Inl (DBError ''no rows''))
              ''2025-01-01T00:00:00Z'',
            WaitFrame \<lparr>ID = ''10.0.0.1:5000'', Conn = 1\<rparr>
              (Some (JObject [(''type'', JString ''heartbeat'')])),
            Connect \<lparr>ID = ''10.0.0.2:5000'', Conn = 2\<rparr> (Inr ()) (Inl (DBError ''no rows''))
              ''2025-01-01T00:00:05Z'']
       \<lparr>waitingPlayer = None, sessions = [], sent = []\<rparr> = Some s'
   \<and> sessions s' =
       [(\<lparr>Player1 = \<lparr>ID = ''10.0.0.1:5000'', Conn = 1\<rparr>,
          Player2 = \<lparr>ID = ''10.0.0.2:5000'', Conn = 2\<rparr>\<rparr>, gs)]
   \<and> waitingPlayer s' = None
   \<and> wsHandler (Connect \<lparr>ID = ''10.0.0.3:5000'', Conn = 3\<rparr> (Inr ())
                  (Inl (DBError ''no rows'')) ''2025-01-01T00:00:09Z'') s' =
       Some (s'\<lparr>waitingPlayer := Some \<lparr>ID = ''10.0.0.3:5000'', Conn = 3\<rparr>\<rparr>)"
  using arrivals_paired_in_order
    [where s = "\<lparr>waitingPlayer = None, sessions = [], sent = []\<rparr>"
       and A = "\<lparr>ID = ''10.0.0.1:5000'', Conn = 1\<rparr>"
       and ca = "Inr ()" and la = "Inl (DBError ''no rows'')" and ta = "''2025-01-01T00:00:00Z''"
       and frames = "[(\<lparr>ID = ''10.0.0.1:5000'', Conn = 1\<rparr>,
                       Some (JObject [(''type'', JString ''heartbeat'')]))]"
       and B = "\<lparr>ID = ''10.0.0.2:5000'', Conn = 2\<rparr>"
       and cb = "Inr ()" and lb = "Inl (DBError ''no rows'')" and tb = "''2025-01-01T00:00:05Z''"
       and C = "\<lparr>ID = ''10.0.0.3:5000'', Conn = 3\<rparr>"
       and cc = "Inr ()" and lc = "Inl (DBError ''no rows'')" and tc = "''2025-01-01T00:00:09Z''"]
  by (auto simp del: wsHandler.simps serve.simps)

text \<open>
  Claim C6. Let \<open>A\<close> arrive while nobody waits and let the read of its waiting loop fail
  before anybody else arrives (the waiting loop may have read any frames before). Then
  the slot is empty again, the server is in the state it was in before \<open>A\<close> arrived, and
  the next arrival \<open>C\<close> becomes the waiting player without forming a match. The failed
  read clears the slot only if the slot holds a player with the \<^verbatim>\<open>ID\<close> of the handler's
  own player: a slot that holds a player with another \<^verbatim>\<open>ID\<close>, and an empty slot, stay as
  they are.
\<close>

theorem waiting_disconnect_clears_slot:
  assumes "waitingPlayer s = None"
  shows "serve (Connect A ca la ta # map (\<lambda>(p, msg). WaitFrame p msg) frames
                  @ [WaitClosed A]) s = Some s
       \<and> wsHandler (Connect C cc lc tc) s = Some (s\<lparr>waitingPlayer := Some C\<rparr>)
       \<and> (waitingPlayer s1 = Some w \<and> ID w \<noteq> ID A \<longrightarrow> wsHandler (WaitClosed A) s1 = Some s1)
       \<and> (waitingPlayer s1 = None \<longrightarrow> wsHandler (WaitClosed A) s1 = Some s1)"
proof -
  have "wsHandler (WaitClosed A) (s\<lparr>waitingPlayer := Some A\<rparr>) = Some s"
    using assms by simp
  then have "serve (Connect A ca la ta # map (\<lambda>(p, msg). WaitFrame p msg) frames
                  @ [WaitClosed A]) s = Some s"
    by (simp add: Connect_waits[OF assms] serve_append serve_WaitFrames del: wsHandler.simps)
  moreover have "wsHandler (Connect C cc lc tc) s = Some (s\<lparr>waitingPlayer := Some C\<rparr>)"
    by (rule Connect_waits[OF assms])
  ultimately show ?thesis by simp
qed

text \<open>
  The first player leaves while it waits; a later failed read of its handler does not
  remove the player that waits by then.
\<close>

theorem waiting_disconnect_clears_slot_witness:
  "serve [Connect \<lparr>ID = ''10.0.0.1:5000'', Conn = 1\<rparr> (Inr ()) (Inl (DBError ''no rows''))
            ''2025-01-01T00:00:00Z'',
          WaitFrame \<lparr>ID = ''10.0.0.1:5000'', Conn = 1\<rparr>
            (Some (JObject [(''type'', JString ''heartbeat'')])),
          WaitClosed \<lparr>ID = ''10.0.0.1:5000'', Conn = 1\<rparr>]
     \<lparr>waitingPlayer = None, sessions = [], sent = []\<rparr> =
     Some \<lparr>waitingPlayer = None, sessions = [], sent = []\<rparr>
   \<and> wsHandler (Connect \<lparr>ID = ''10.0.0.3:5000'', Conn = 3\<rparr> (Inr ())
                  (Inl (DBError ''no rows'')) ''2025-01-01T00:00:09Z'')
       \<lparr>waitingPlayer = None, sessions = [], sent = []\<rparr> =
     Some \<lparr>waitingPlayer = Some \<lparr>ID = ''10.0.0.3:5000'', Conn = 3\<rparr>, sessions = [], sent = []\<rparr>
   \<and> wsHandler (WaitClosed \<lparr>ID = ''10.0.0.1:5000'', Conn = 1\<rparr>)
       \<lparr>waitingPlayer = Some \<lparr>ID = ''10.0.0.3:5000'', Conn = 3\<rparr>, sessions = [], sent = []\<rparr> =
     Some \<lparr>waitingPlayer = Some \<lparr>ID = ''10.0.0.3:5000'', Conn = 3\<rparr>, sessions = [], sent = []\<rparr>"
  using waiting_disconnect_clears_slot
    [where s = "\<lparr>waitingPlayer = None, sessions = [], sent = []\<rparr>"
       and A = "\<lparr>ID = ''10.0.0.1:5000'', Conn = 1\<rparr>"
       and ca = "Inr ()" and la = "Inl (DBError ''no rows'')" and ta = "''2025-01-01T00:00:00Z''"
       and frames = "[(\<lparr>ID = ''10.0.0.1:5000'', Conn = 1\<rparr>,
                       Some (JObject [(''type'', JString ''heartbeat'')]))]"
       and C = "\<lparr>ID = ''10.0.0.3:5000'', Conn = 3\<rparr>"
       and cc = "Inr ()" and lc = "Inl (DBError ''no rows'')" and tc = "''2025-01-01T00:00:09Z''"
       and ?s1.0 = "\<lparr>waitingPlayer = Some \<lparr>ID = ''10.0.0.3:5000'', Conn = 3\<rparr>,
                      sessions = [], sent = []\<rparr>"
       and w = "\<lparr>ID = ''10.0.0.3:5000'', Conn = 3\<rparr>"]
  by (simp del: wsHandler.simps serve.simps)

section \<open>Frame and nil state\<close>

text \<open>
  Claim C8. For every frame, every game state and every opponent connection (nil or
  not), a call of \<^verbatim>\<open>handleMessage\<close> for \<^verbatim>\<open>player1\<close> either panics or returns with the
  state it was given except for \<^verbatim>\<open>Player1State\<close> and \<^verbatim>\<open>IsFinished\<close>: \<^verbatim>\<open>Player2State\<close>,
  \<^verbatim>\<open>Puzzle\<close> and \<^verbatim>\<open>StartTime\<close> are as before. The same holds for \<^verbatim>\<open>player2\<close> with the two
  maps exchanged. On a state whose two maps are allocated, as \<^verbatim>\<open>wsHandler\<close> creates it,
  the call does not panic.
\<close>

theorem dispatch_frame:
  "(handleMessage msg (Some gs) ''player1'' oc = Panic
      \<or> (\<exists>ws g b. handleMessage msg (Some gs) ''player1'' oc =
            Return (Some (gs\<lparr>Player1State := g, IsFinished := b\<rparr>)) ws))
   \<and> (handleMessage msg (Some gs) ''player2'' oc = Panic
      \<or> (\<exists>ws g b. handleMessage msg (Some gs) ''player2'' oc =
            Return (Some (gs\<lparr>Player2State := g, IsFinished := b\<rparr>)) ws))
   \<and> (Player1State gs \<noteq> None \<and> Player2State gs \<noteq> None \<longrightarrow>
        handleMessage msg (Some gs) ''player1'' oc \<noteq> Panic
        \<and> handleMessage msg (Some gs) ''player2'' oc \<noteq> Panic)"
proof -
  have same: "gs = gs\<lparr>Player1State := Player1State gs, IsFinished := IsFinished gs\<rparr>"
       "gs = gs\<lparr>Player2State := Player2State gs, IsFinished := IsFinished gs\<rparr>"
    by simp_all
  have fin: "gs\<lparr>IsFinished := True\<rparr> = gs\<lparr>Player1State := Player1State gs, IsFinished := True\<rparr>"
       "gs\<lparr>IsFinished := True\<rparr> = gs\<lparr>Player2State := Player2State gs, IsFinished := True\<rparr>"
    by simp_all
  have upd: "gs\<lparr>Player1State := g\<rparr> = gs\<lparr>Player1State := g, IsFinished := IsFinished gs\<rparr>"
       "gs\<lparr>Player2State := g\<rparr> = gs\<lparr>Player2State := g, IsFinished := IsFinished gs\<rparr>" for g
    by simp_all
  have one: "handleMessage msg (Some gs) ''player1'' oc = Panic
      \<or> (\<exists>ws g b. handleMessage msg (Some gs) ''player1'' oc =
            Return (Some (gs\<lparr>Player1State := g, IsFinished := b\<rparr>)) ws)"
    using handleMessage_outcomes[of msg gs "''player1''" oc]
    by (elim disjE exE conjE) (simp, metis same(1), metis upd(1), simp, metis fin(1))
  have two: "handleMessage msg (Some gs) ''player2'' oc = Panic
      \<or> (\<exists>ws g b. handleMessage msg (Some gs) ''player2'' oc =
            Return (Some (gs\<lparr>Player2State := g, IsFinished := b\<rparr>)) ws)"
    using handleMessage_outcomes[of msg gs "''player2''" oc]
    by (elim disjE exE conjE) (simp, metis same(2), simp, metis upd(2), metis fin(2))
  have three: "Player1State gs \<noteq> None \<and> Player2State gs \<noteq> None \<longrightarrow>
        handleMessage msg (Some gs) ''player1'' oc \<noteq> Panic
        \<and> handleMessage msg (Some gs) ''player2'' oc \<noteq> Panic"
    by (simp add: handleMessage_no_panic)
  show ?thesis using one two three by blast
qed

text \<open>A board update of either player in a fresh game.\<close>

theorem dispatch_frame_witness:
  "(\<exists>ws g b.
      handleMessage
        (Some (JObject [(''type'', JString ''board_update''),
                        (''data'', JObject [(''cell'', JString ''1A1''), (''letter'', JString ''C'')])]))
        (Some \<lparr>Puzzle = dummyPuzzle, Player1State = Some Map.empty,
               Player2State = Some Map.empty, StartTime = ''2025-01-01T00:00:00Z'',
               IsFinished = False\<rparr>)
        ''player1'' (Some 2) =
      Return
        (Some \<lparr>Puzzle = dummyPuzzle, Player1State = g,
               Player2State = Some Map.empty, StartTime = ''2025-01-01T00:00:00Z'',
               IsFinished = b\<rparr>) ws)
   \<and> (\<exists>ws g b.
      handleMessage
        (Some (JObject [(''type'', JString ''board_update''),
                        (''data'', JObject [(''cell'', JString ''1A1''), (''letter'', JString ''C'')])]))
        (Some \<lparr>Puzzle = dummyPuzzle, Player1State = Some Map.empty,
               Player2State = Some Map.empty, StartTime = ''2025-01-01T00:00:00Z'',
               IsFinished = False\<rparr>)
        ''player2'' (Some 2) =
      Return
        (Some \<lparr>Puzzle = dummyPuzzle, Player1State = Some Map.empty,
               Player2State = g, StartTime = ''2025-01-01T00:00:00Z'',
               IsFinished = b\<rparr>) ws)"
  using dispatch_frame
    [where gs = "\<lparr>Puzzle = dummyPuzzle, Player1State = Some Map.empty,
                  Player2State = Some Map.empty, StartTime = ''2025-01-01T00:00:00Z'',
                  IsFinished = False\<rparr>"
       and msg = "Some (JObject [(''type'', JString ''board_update''),
                    (''data'', JObject [(''cell'', JString ''1A1''), (''letter'', JString ''C'')])])"
       and oc = "Some 2"]
  by auto

text \<open>
  Claim C9. With the nil game state \<^verbatim>\<open>handleMessage\<close> returns for every frame, every
  player label and every opponent connection, and the state is still nil: no panic, no
  mutation. With the nil opponent connection of the waiting loop it writes nothing
  either, so a frame read by a waiting loop (a heartbeat, a board update, a game over or
  anything else) leaves the whole server as it is.
\<close>

theorem nil_state_tolerated:
  "handleMessage msg None playerID None = Return None []
   \<and> (\<exists>ws. handleMessage msg None playerID opponentConn = Return None ws)
   \<and> wsHandler (WaitFrame player msg) s = Some s"
  by (simp add: handleMessage_nil handleMessage_nil_state)

text \<open>A waiting player sends a board update.\<close>

theorem nil_state_tolerated_witness:
  "handleMessage
     (Some (JObject [(''type'', JString ''board_update''),
                     (''data'', JObject [(''cell'', JString ''1A1''), (''letter'', JString ''C'')])]))
     None ''waiting'' None = Return None []
   \<and> wsHandler
       (WaitFrame \<lparr>ID = ''10.0.0.1:5000'', Conn = 1\<rparr>
          (Some (JObject [(''type'', JString ''board_update''),
                          (''data'', JObject [(''cell'', JString ''1A1''), (''letter'', JString ''C'')])])))
       \<lparr>waitingPlayer = Some \<lparr>ID = ''10.0.0.1:5000'', Conn = 1\<rparr>, sessions = [], sent = []\<rparr> =
     Some \<lparr>waitingPlayer = Some \<lparr>ID = ''10.0.0.1:5000'', Conn = 1\<rparr>, sessions = [], sent = []\<rparr>"
  using nil_state_tolerated
    [where msg = "Some (JObject [(''type'', JString ''board_update''),
                    (''data'', JObject [(''cell'', JString ''1A1''), (''letter'', JString ''C'')])])"
       and playerID = "''waiting''" and opponentConn = None
       and player = "\<lparr>ID = ''10.0.0.1:5000'', Conn = 1\<rparr>"
       and s = "\<lparr>waitingPlayer = Some \<lparr>ID = ''10.0.0.1:5000'', Conn = 1\<rparr>,
                  sessions = [], sent = []\<rparr>"]
  by (simp del: wsHandler.simps)

section \<open>The finished flag\<close>

text \<open>
  Claim C10. For every frame and every game state, a call of \<^verbatim>\<open>handleMessage\<close> either
  panics or returns with a state in which \<^verbatim>\<open>IsFinished\<close> is set if it was set before; the
  flag differs after the call only if the frame decoded to an envelope with the type tag
  \<^verbatim>\<open>game_over\<close>, and then it is set. So over every sequence of frames read by the two
  pumps of a match, in any interleaving, a flag that is set stays set. On a state whose
  two maps are allocated, as \<^verbatim>\<open>wsHandler\<close> creates it, neither a call nor the pumps panic.
\<close>

theorem finished_flag_monotone:
  "(relay match evs (Some gs) = Panic
      \<or> (\<exists>gs' ws. relay match evs (Some gs) = Return (Some gs') ws
            \<and> (IsFinished gs \<longrightarrow> IsFinished gs')))
   \<and> (handleMessage msg (Some gs) pid oc = Panic
      \<or> (\<exists>gs' ws. handleMessage msg (Some gs) pid oc = Return (Some gs') ws
            \<and> (IsFinished gs \<longrightarrow> IsFinished gs')
            \<and> (IsFinished gs' \<noteq> IsFinished gs \<longrightarrow>
                 (\<exists>m. unmarshalMessage msg = Inr m \<and> Type m = ''game_over''))))
   \<and> (Player1State gs \<noteq> None \<and> Player2State gs \<noteq> None \<longrightarrow>
        relay match evs (Some gs) \<noteq> Panic \<and> handleMessage msg (Some gs) pid oc \<noteq> Panic)"
  using relay_monotone[of match evs gs] handleMessage_monotone[of msg gs pid oc]
    relay_allocated[of gs match evs] handleMessage_no_panic[of gs msg pid oc]
  by auto

text \<open>A finished game receives a board update and a heartbeat.\<close>

theorem finished_flag_monotone_witness:
  "(\<exists>gs' ws.
      relay \<lparr>Player1 = \<lparr>ID = ''10.0.0.1:5000'', Conn = 1\<rparr>,
             Player2 = \<lparr>ID = ''10.0.0.2:5000'', Conn = 2\<rparr>\<rparr>
        [(Side1, Some (JObject [(''type'', JString ''board_update''),
                    (''data'', JObject [(''cell'', JString ''1A1''), (''letter'', JString ''C'')])])),
         (Side2, Some (JObject [(''type'', JString ''heartbeat'')]))]
        (Some \<lparr>Puzzle = dummyPuzzle, Player1State = Some Map.empty,
               Player2State = Some Map.empty, StartTime = ''2025-01-01T00:00:00Z'',
               IsFinished = True\<rparr>) = Return (Some gs') ws
      \<and> IsFinished gs')
   \<and> (\<exists>gs' ws.
      handleMessage (Some (JObject [(''type'', JString ''heartbeat'')]))
        (Some \<lparr>Puzzle = dummyPuzzle, Player1State = Some Map.empty,
               Player2State = Some Map.empty, StartTime = ''2025-01-01T00:00:00Z'',
               IsFinished = True\<rparr>) ''player2'' (Some 1) = Return (Some gs') ws
      \<and> IsFinished gs')"
  using finished_flag_monotone
    [where gs = "\<lparr>Puzzle = dummyPuzzle, Player1State = Some Map.empty,
                  Player2State = Some Map.empty, StartTime = ''2025-01-01T00:00:00Z'',
                  IsFinished = True\<rparr>"
       and match = "\<lparr>Player1 = \<lparr>ID = ''10.0.0.1:5000'', Conn = 1\<rparr>,
                     Player2 = \<lparr>ID = ''10.0.0.2:5000'', Conn = 2\<rparr>\<rparr>"
       and evs = "[(Side1, Some (JObject [(''type'', JString ''board_update''),
                      (''data'', JObject [(''cell'', JString ''1A1''), (''letter'', JString ''C'')])])),
                   (Side2, Some (JObject [(''type'', JString ''heartbeat'')]))]"
       and msg = "Some (JObject [(''type'', JString ''heartbeat'')])"
       and pid = "''player2''" and oc = "Some 1"]
  by (auto simp del: relay.simps)

end
